theory Spec2Isabelle
  imports Complex_Main "HOL-Library.Sublist" "HOL-Library.Log_Nat"
begin

section \<open>The Reddit mention tracker: retrieval core of \<open>reddit_scraper.py\<close>\<close>

text \<open>
  The development embeds class \<open>RedditScraper\<close>. A post is the dictionary with thirteen
  fixed keys that both normalizers build; it is a record here, so every key is present by
  construction. Field values are typed as Reddit documents them (text, integer, number,
  boolean): a Python number that is only stored and compared is a \<open>real\<close>. The creation
  time, which the aggregator sorts by, is a number or JSON's \<open>null\<close>: comparing
  \<open>None\<close> raises in Python, and that is how data alone can make the sort fail. An id is
  a text, which can always be hashed and compared. Texts are ASCII, one \<open>char\<close> per code
  point. The outside world of one call (HTTP responses, the browser, the clock, the random
  source, the progress callback) is an explicit parameter, and an exception is a value:
  the left summand of a result, or \<open>None\<close> where the source catches it at once.
  Exceptions are of two kinds, as \<open>except Exception\<close> tells them apart: those of class
  \<open>Exception\<close>, and interrupts such as \<open>KeyboardInterrupt\<close> and \<open>SystemExit\<close>,
  which here come from the caller's progress callback.
\<close>

subsection \<open>Posts and raw API records\<close>

text \<open>A creation time as JSON gives it: \<open>null\<close> (Python's \<open>None\<close>) or a number.\<close>

datatype json_number = Null | Number real

record post =
  post_id :: string
  title :: string
  selftext :: string
  author :: string
  subreddit :: string
  score :: int
  upvote_ratio :: real
  num_comments :: int
  created_utc :: json_number
  url :: string
  permalink :: string
  domain :: string
  is_self :: bool

text \<open>
  The dictionary \<open>post_data\<close> decoded from the API's JSON: a key is absent (\<open>None\<close>) or
  carries a value.
\<close>

record raw_post =
  raw_id :: "string option"
  raw_title :: "string option"
  raw_selftext :: "string option"
  raw_author :: "string option"
  raw_subreddit :: "string option"
  raw_score :: "int option"
  raw_upvote_ratio :: "real option"
  raw_num_comments :: "int option"
  raw_created_utc :: "json_number option"
  raw_url :: "string option"
  raw_permalink :: "string option"
  raw_domain :: "string option"
  raw_is_self :: "bool option"

text \<open>\<open>d.get(key, default)\<close>.\<close>

definition dict_get :: "'a option \<Rightarrow> 'a \<Rightarrow> 'a" where
  "dict_get v d = (case v of None \<Rightarrow> d | Some x \<Rightarrow> x)"

text \<open>\<open>_extract_post_data\<close>: the normalizer of the two JSON strategies.\<close>

definition extract_post_data :: "raw_post \<Rightarrow> post" where
  "extract_post_data post_data =
     \<lparr> post_id = dict_get (raw_id post_data) '''',
       title = dict_get (raw_title post_data) '''',
       selftext = dict_get (raw_selftext post_data) '''',
       author = dict_get (raw_author post_data) ''[deleted]'',
       subreddit = dict_get (raw_subreddit post_data) '''',
       score = dict_get (raw_score post_data) 0,
       upvote_ratio = dict_get (raw_upvote_ratio post_data) 0,
       num_comments = dict_get (raw_num_comments post_data) 0,
       created_utc = dict_get (raw_created_utc post_data) (Number 0),
       url = dict_get (raw_url post_data) '''',
       permalink = ''https://www.reddit.com'' @ dict_get (raw_permalink post_data) '''',
       domain = dict_get (raw_domain post_data) '''',
       is_self = dict_get (raw_is_self post_data) False \<rparr>"

text \<open>The record with no key at all (\<open>{}\<close>).\<close>

definition empty_record :: raw_post where
  "empty_record =
     \<lparr> raw_id = None, raw_title = None, raw_selftext = None, raw_author = None,
       raw_subreddit = None, raw_score = None, raw_upvote_ratio = None,
       raw_num_comments = None, raw_created_utc = None, raw_url = None,
       raw_permalink = None, raw_domain = None, raw_is_self = None \<rparr>"

subsection \<open>Python text functions used by the parsers\<close>

definition is_digit :: "char \<Rightarrow> bool" where
  "is_digit c = (48 \<le> (of_char c :: nat) \<and> (of_char c :: nat) \<le> 57)"

definition digit_val :: "char \<Rightarrow> nat" where
  "digit_val c = of_char c - 48"

text \<open>The white space that \<open>int\<close> and \<open>float\<close> skip around an ASCII text: tab to carriage
  return, and the blank.\<close>

definition is_space :: "char \<Rightarrow> bool" where
  "is_space c = ((9 \<le> (of_char c :: nat) \<and> (of_char c :: nat) \<le> 13) \<or> (of_char c :: nat) = 32)"

definition lower_char :: "char \<Rightarrow> char" where
  "lower_char c = (if 65 \<le> (of_char c :: nat) \<and> (of_char c :: nat) \<le> 90
                   then char_of ((of_char c :: nat) + 32) else c)"

text \<open>\<open>s.lower()\<close>.\<close>

definition lower :: "string \<Rightarrow> string" where
  "lower s = map lower_char s"

text \<open>\<open>s.replace(c, '')\<close> for a single character \<open>c\<close>.\<close>

definition remove_char :: "char \<Rightarrow> string \<Rightarrow> string" where
  "remove_char c s = filter (\<lambda>x. x \<noteq> c) s"

text \<open>\<open>s.replace('r/', '')\<close>: every occurrence, left to right, without overlap.\<close>

fun remove_r_slash :: "string \<Rightarrow> string" where
  "remove_r_slash (a # b # cs) =
     (if a = CHR ''r'' \<and> b = CHR ''/'' then remove_r_slash cs else a # remove_r_slash (b # cs))"
| "remove_r_slash cs = cs"

definition strip :: "string \<Rightarrow> string" where
  "strip s = rev (dropWhile is_space (rev (dropWhile is_space s)))"

text \<open>The value of a list of decimal digits, most significant first.\<close>

definition decimal :: "nat list \<Rightarrow> int" where
  "decimal ds = foldl (\<lambda>acc d. 10 * acc + int d) 0 ds"

text \<open>
  Python's \<open>digitpart\<close>: a digit, then digits each optionally preceded by one underscore.
  \<open>more_digits\<close> reads what follows the first digit and returns the digits and the rest.
\<close>

fun more_digits :: "string \<Rightarrow> nat list \<times> string" where
  "more_digits [] = ([], [])"
| "more_digits [c] = (if is_digit c then ([digit_val c], []) else ([], [c]))"
| "more_digits (c # d # cs) =
     (if is_digit c then (case more_digits (d # cs) of (ds, r) \<Rightarrow> (digit_val c # ds, r))
      else if c = CHR ''_'' \<and> is_digit d then (case more_digits cs of (ds, r) \<Rightarrow> (digit_val d # ds, r))
      else ([], c # d # cs))"

definition digitpart :: "string \<Rightarrow> (nat list \<times> string) option" where
  "digitpart s =
     (case s of
        [] \<Rightarrow> None
      | c # cs \<Rightarrow>
          if is_digit c then (case more_digits cs of (ds, r) \<Rightarrow> Some (digit_val c # ds, r))
          else None)"

text \<open>An optional sign: whether it is a minus, and the rest.\<close>

definition split_sign :: "string \<Rightarrow> bool \<times> string" where
  "split_sign s =
     (case s of
        [] \<Rightarrow> (False, [])
      | c # cs \<Rightarrow>
          if c = CHR ''-'' then (True, cs) else if c = CHR ''+'' then (False, cs) else (False, s))"

text \<open>
  \<open>int(s)\<close> in base ten; \<open>None\<close> is \<open>ValueError\<close>. The interpreter's optional cap on
  the length of a decimal text is left out.
\<close>

definition py_int :: "string \<Rightarrow> int option" where
  "py_int s =
     (case split_sign (strip s) of (neg, body) \<Rightarrow>
        (case digitpart body of
           Some (ds, []) \<Rightarrow> Some (if neg then - decimal ds else decimal ds)
         | _ \<Rightarrow> None))"

subsection \<open>Python floats\<close>

text \<open>
  A float is a binary64 number: a rational with a 53-bit significand, an infinity (its sign
  plays no part below) or a NaN. Conversion from text and multiplication round the exact
  result to the nearest such number, ties to the even significand.
\<close>

datatype pyfloat = Finite rat | Inf | NaN

definition pow2 :: "int \<Rightarrow> rat" where
  "pow2 n = (if 0 \<le> n then 2 ^ nat n else 1 / 2 ^ nat (- n))"

definition pow10 :: "int \<Rightarrow> rat" where
  "pow10 n = (if 0 \<le> n then 10 ^ nat n else 1 / 10 ^ nat (- n))"

text \<open>The binary exponent of a positive rational: the largest \<open>e\<close> with \<open>2 ^ e \<le> a\<close>.\<close>

definition ilog2 :: "rat \<Rightarrow> int" where
  "ilog2 a =
     (case quotient_of a of (n, d) \<Rightarrow>
        (let k = bitlen n - bitlen d in if pow2 k \<le> a then k else k - 1))"

definition round_half_even :: "rat \<Rightarrow> int" where
  "round_half_even x =
     (let f = \<lfloor>x\<rfloor>; d = x - of_int f
      in if d < 1 / 2 then f else if 1 / 2 < d then f + 1 else if even f then f else f + 1)"

definition round_double :: "rat \<Rightarrow> pyfloat" where
  "round_double q =
     (if q = 0 then Finite 0
      else let a = \<bar>q\<bar>;
               ulp = pow2 (max (ilog2 a) (- 1022) - 52);
               r = of_int (round_half_even (a / ulp)) * ulp
           in if pow2 1024 \<le> r then Inf else Finite (if q < 0 then - r else r))"

text \<open>The exponent of a float literal, which must end the text.\<close>

definition exponent_part :: "string \<Rightarrow> int option" where
  "exponent_part s =
     (case s of
        [] \<Rightarrow> Some 0
      | c # cs \<Rightarrow>
          if c = CHR ''e'' \<or> c = CHR ''E''
          then (case split_sign cs of (neg, body) \<Rightarrow>
                 (case digitpart body of
                    Some (ds, []) \<Rightarrow> Some (if neg then - decimal ds else decimal ds)
                  | _ \<Rightarrow> None))
          else None)"

text \<open>The digits before and after the point of a float literal, and the rest.\<close>

definition number_part :: "string \<Rightarrow> (nat list \<times> nat list \<times> string) option" where
  "number_part s =
     (case digitpart s of
        Some (ip, r) \<Rightarrow>
          (case r of
             [] \<Rightarrow> Some (ip, [], [])
           | c # r' \<Rightarrow>
               if c = CHR ''.''
               then (case digitpart r' of
                       Some (fp, r'') \<Rightarrow> Some (ip, fp, r'')
                     | None \<Rightarrow> Some (ip, [], r'))
               else Some (ip, [], r))
      | None \<Rightarrow>
          (case s of
             [] \<Rightarrow> None
           | c # r' \<Rightarrow>
               if c = CHR ''.''
               then (case digitpart r' of Some (fp, r'') \<Rightarrow> Some ([], fp, r'') | None \<Rightarrow> None)
               else None))"

text \<open>\<open>float(s)\<close>; \<open>None\<close> is \<open>ValueError\<close>.\<close>

definition py_float :: "string \<Rightarrow> pyfloat option" where
  "py_float s =
     (case split_sign (strip s) of (neg, body) \<Rightarrow>
        if lower body = ''inf'' \<or> lower body = ''infinity'' then Some Inf
        else if lower body = ''nan'' then Some NaN
        else (case number_part body of
                None \<Rightarrow> None
              | Some (ip, fp, r) \<Rightarrow>
                  (case exponent_part r of
                     None \<Rightarrow> None
                   | Some x \<Rightarrow>
                       let m = of_int (decimal (ip @ fp)) * pow10 (x - int (length fp))
                       in Some (round_double (if neg then - m else m)))))"

text \<open>\<open>x * y\<close> on floats.\<close>

definition float_mul :: "pyfloat \<Rightarrow> pyfloat \<Rightarrow> pyfloat" where
  "float_mul x y =
     (case (x, y) of
        (Finite a, Finite b) \<Rightarrow> round_double (a * b)
      | (NaN, _) \<Rightarrow> NaN
      | (_, NaN) \<Rightarrow> NaN
      | (Inf, Finite b) \<Rightarrow> (if b = 0 then NaN else Inf)
      | (Finite a, Inf) \<Rightarrow> (if a = 0 then NaN else Inf)
      | (Inf, Inf) \<Rightarrow> Inf)"

text \<open>\<open>int(x)\<close> of a float truncates towards zero; \<open>None\<close> is \<open>OverflowError\<close> (an
  infinity) or \<open>ValueError\<close> (a NaN).\<close>

definition int_of_float :: "pyfloat \<Rightarrow> int option" where
  "int_of_float x =
     (case x of
        Finite a \<Rightarrow> Some (if 0 \<le> a then \<lfloor>a\<rfloor> else \<lceil>a\<rceil>)
      | Inf \<Rightarrow> None
      | NaN \<Rightarrow> None)"

subsection \<open>The text parsers of the browser strategy\<close>

text \<open>\<open>_parse_score\<close>: the bare \<open>except\<close> turns every error into 0.\<close>

definition parse_score :: "string \<Rightarrow> int" where
  "parse_score score_text =
     (let score_text = remove_char CHR '','' (lower score_text)
      in if CHR ''k'' \<in> set score_text
         then (case py_float (remove_char CHR ''k'' score_text) of
                 None \<Rightarrow> 0
               | Some f \<Rightarrow>
                   (case int_of_float (float_mul f (Finite 1000)) of None \<Rightarrow> 0 | Some n \<Rightarrow> n))
         else (case py_int score_text of None \<Rightarrow> 0 | Some n \<Rightarrow> n))"

text \<open>\<open>_parse_comment_count\<close>: the first run of digits of the text without its commas.\<close>

definition parse_comment_count :: "string \<Rightarrow> int" where
  "parse_comment_count comment_text =
     (let numbers = takeWhile is_digit
                      (dropWhile (\<lambda>c. \<not> is_digit c) (remove_char CHR '','' comment_text))
      in if numbers = [] then 0 else decimal (map digit_val numbers))"

subsection \<open>The outside world of one search\<close>

text \<open>
  What a request can come to, read in the order of the source: \<open>session.get\<close> raises,
  \<open>raise_for_status\<close> raises, \<open>response.json()\<close> raises, the decoded body has no
  \<open>data.children\<close> (or is no dictionary at all), or it lists children. A child whose
  \<open>['data']\<close> cannot be read or normalized raises inside the loop.
\<close>

datatype child = Child raw_post | BadChild

datatype response = ConnectionError | HTTPError | InvalidJSON | NoListing | Listing "child list"

text \<open>
  The two requests: the site-wide search with \<open>q\<close>, \<open>sort\<close>, \<open>t\<close> and \<open>limit\<close>
  (\<open>type\<close> is always \<open>link\<close>), and the search of one subreddit with the subreddit,
  \<open>q\<close> and \<open>limit\<close> (always restricted, by relevance, over the week).
\<close>

datatype request = SiteSearch string string string int | SubredditSearch string string int

text \<open>
  A post container of the rendered page. Each text is \<open>None\<close> when \<open>find_element\<close> raises
  for its selector. \<open>rand_draw\<close> is the draw of the random source and \<open>clock\<close> the value
  of \<open>int(time.time())\<close> when the post is extracted.
\<close>

record post_element =
  h3_text :: "string option"
  subreddit_name :: "string option"
  vote_count :: "string option"
  comment_count :: "string option"
  title_href :: "string option"
  rand_draw :: int
  clock :: int

text \<open>Loading the search page (navigation, the wait for the body, the scrolls, the lookup of
  the containers): an exception anywhere, or the containers found.\<close>

datatype page = PageError | Elements "post_element list"

record world =
  http_get :: "request \<Rightarrow> response"
  chrome_starts :: bool
  load_page :: "string \<Rightarrow> string \<Rightarrow> string \<Rightarrow> page"
  quit_fails :: bool

text \<open>
  The exceptions of the model: the browser's, the \<open>TypeError\<close> of a comparison with
  \<open>None\<close>, and the two kinds a progress callback can raise, an error of class
  \<open>Exception\<close> and an interrupt (\<open>KeyboardInterrupt\<close>, \<open>SystemExit\<close>).
\<close>

datatype exn = WebDriverException | TypeError | CallbackError | CallbackInterrupt

text \<open>What \<open>except Exception\<close> catches.\<close>

definition is_Exception :: "exn \<Rightarrow> bool" where
  "is_Exception e = (e \<noteq> CallbackInterrupt)"

text \<open>The scraper's own state: whether \<open>self.driver\<close> holds a browser session.\<close>

record scraper =
  driver :: bool

subsection \<open>Browser session\<close>

text \<open>\<open>init_browser\<close>: the failure to start the browser is logged and raised again.\<close>

definition init_browser :: "world \<Rightarrow> scraper \<Rightarrow> exn + scraper" where
  "init_browser w s =
     (if \<not> driver s
      then (if chrome_starts w then Inr (s\<lparr>driver := True\<rparr>) else Inl WebDriverException)
      else Inr s)"

text \<open>\<open>close_browser\<close>: \<open>quit\<close> is called unguarded.\<close>

definition close_browser :: "world \<Rightarrow> scraper \<Rightarrow> exn + scraper" where
  "close_browser w s =
     (if driver s
      then (if quit_fails w then Inl WebDriverException else Inr (s\<lparr>driver := False\<rparr>))
      else Inr s)"

subsection \<open>The JSON strategies\<close>

text \<open>The loop over \<open>data['data']['children']\<close>: an exception ends it and keeps what was
  appended.\<close>

fun collect :: "child list \<Rightarrow> post list" where
  "collect [] = []"
| "collect (Child post_data # cs) = extract_post_data post_data # collect cs"
| "collect (BadChild # cs) = []"

text \<open>\<open>_search_via_json_api\<close>\<close>

definition search_via_json_api :: "world \<Rightarrow> string \<Rightarrow> string \<Rightarrow> string \<Rightarrow> int \<Rightarrow> post list" where
  "search_via_json_api w search_term time_filter sort_order limit =
     (case http_get w (SiteSearch search_term sort_order time_filter (min limit 100)) of
        Listing children \<Rightarrow> collect children
      | _ \<Rightarrow> [])"

text \<open>\<open>_search_subreddit_json\<close>\<close>

definition search_subreddit_json :: "world \<Rightarrow> string \<Rightarrow> string \<Rightarrow> int \<Rightarrow> post list" where
  "search_subreddit_json w search_term sub limit =
     (case http_get w (SubredditSearch sub search_term limit) of
        Listing children \<Rightarrow> collect children
      | _ \<Rightarrow> [])"

definition target_subreddits :: "string list" where
  "target_subreddits =
     [''technology'', ''business'', ''news'', ''worldnews'', ''stocks'',
      ''investing'', ''entrepreneur'', ''startups'', ''tech'', ''gadgets'']"

text \<open>\<open>_search_multiple_subreddits\<close>\<close>

definition search_multiple_subreddits :: "world \<Rightarrow> string \<Rightarrow> int \<Rightarrow> post list" where
  "search_multiple_subreddits w search_term limit =
     (let posts_per_subreddit = max 1 (limit div int (length target_subreddits))
      in concat (map (\<lambda>sub. search_subreddit_json w search_term sub posts_per_subreddit)
                     target_subreddits))"

subsection \<open>The browser strategy\<close>

text \<open>\<open>str(n)\<close> of an integer.\<close>

function str_of_int :: "int \<Rightarrow> string" where
  "str_of_int n =
     (if n < 0 then CHR ''-'' # str_of_int (- n)
      else if n < 10 then [char_of (48 + n)]
      else str_of_int (n div 10) @ [char_of (48 + n mod 10)])"
  by pat_completeness auto
termination
  by (relation "measure (\<lambda>n. if n < 0 then nat (- n) + 1 else nat n)") auto

text \<open>\<open>random.randint(a, b)\<close> from a draw of the random source.\<close>

definition randint :: "int \<Rightarrow> int \<Rightarrow> int \<Rightarrow> int" where
  "randint a b draw = a + draw mod (b - a + 1)"

text \<open>\<open>xs[:n]\<close>: a negative \<open>n\<close> counts from the end.\<close>

definition slice_to :: "'a list \<Rightarrow> int \<Rightarrow> 'a list" where
  "slice_to xs n = (if 0 \<le> n then take (nat n) xs else take (length xs - nat (- n)) xs)"

text \<open>\<open>_extract_browser_post_data\<close>: \<open>None\<close> when a lookup raises.\<close>

definition extract_browser_post_data :: "post_element \<Rightarrow> post option" where
  "extract_browser_post_data post_element =
     (case h3_text post_element of None \<Rightarrow> None | Some title_text \<Rightarrow>
      (case subreddit_name post_element of None \<Rightarrow> None | Some subreddit_text \<Rightarrow>
      (case vote_count post_element of None \<Rightarrow> None | Some score_text \<Rightarrow>
      (case comment_count post_element of None \<Rightarrow> None | Some comment_text \<Rightarrow>
      (case title_href post_element of None \<Rightarrow> None | Some href \<Rightarrow>
         Some \<lparr> post_id = ''browser_'' @ str_of_int (randint 100000 999999 (rand_draw post_element)),
                title = title_text,
                selftext = '''',
                author = ''N/A'',
                subreddit = remove_r_slash subreddit_text,
                score = parse_score score_text,
                upvote_ratio = 0,
                num_comments = parse_comment_count comment_text,
                created_utc = Number (of_int (clock post_element)),
                url = href,
                permalink = href,
                domain = ''reddit.com'',
                is_self = True \<rparr>)))))"

text \<open>The loop over \<open>posts[:limit]\<close>: a post that cannot be extracted is skipped.\<close>

fun extract_all :: "post_element list \<Rightarrow> post list" where
  "extract_all [] = []"
| "extract_all (e # es) =
     (case extract_browser_post_data e of
        None \<Rightarrow> extract_all es
      | Some post_data \<Rightarrow> post_data # extract_all es)"

text \<open>\<open>_search_via_browser\<close>: the results and the scraper, whose driver may now be set.\<close>

definition search_via_browser ::
  "world \<Rightarrow> scraper \<Rightarrow> string \<Rightarrow> string \<Rightarrow> string \<Rightarrow> int \<Rightarrow> post list \<times> scraper" where
  "search_via_browser w s search_term time_filter sort_order limit =
     (case init_browser w s of
        Inl e \<Rightarrow> ([], s)
      | Inr s' \<Rightarrow>
          (case load_page w search_term sort_order time_filter of
             PageError \<Rightarrow> ([], s')
           | Elements posts \<Rightarrow> (extract_all (slice_to posts limit), s')))"

subsection \<open>The aggregator\<close>

text \<open>The loop that removes duplicates, with its set \<open>seen_ids\<close> and its list
  \<open>unique_results\<close>.\<close>

fun dedup_loop :: "string set \<Rightarrow> post list \<Rightarrow> post list \<Rightarrow> post list" where
  "dedup_loop seen_ids unique_results [] = unique_results"
| "dedup_loop seen_ids unique_results (r # rs) =
     (if post_id r \<notin> seen_ids
      then dedup_loop (insert (post_id r) seen_ids) (unique_results @ [r]) rs
      else dedup_loop seen_ids unique_results rs)"

definition remove_duplicates :: "post list \<Rightarrow> post list" where
  "remove_duplicates results = dedup_loop {} [] results"

text \<open>The number a sort key stands for; the sort reads it of numbers only.\<close>

definition number_of :: "json_number \<Rightarrow> real" where
  "number_of v = (case v of Number x \<Rightarrow> x | Null \<Rightarrow> 0)"

text \<open>
  \<open>sort(key=created_utc, reverse=True)\<close>. A sort of two or more keys compares each key
  with another one at least once, and a comparison with \<open>None\<close> raises \<open>TypeError\<close>; a
  sort of fewer keys compares nothing. On numbers Python's sort is stable, also in
  reverse.
\<close>

definition sort_newest_first :: "post list \<Rightarrow> exn + post list" where
  "sort_newest_first xs =
     (if 2 \<le> length xs \<and> list_ex (\<lambda>x. created_utc x = Null) xs then Inl TypeError
      else Inr (sort_key (\<lambda>x. - number_of (created_utc x)) xs))"

text \<open>What a call of the progress callback does.\<close>

datatype reaction = Returns | Raises exn

text \<open>The progress callback: absent, or a function of the progress value.\<close>

type_synonym callback = "(real \<Rightarrow> reaction) option"

text \<open>\<open>if progress_callback: progress_callback(p)\<close>: the exception raised, if any.\<close>

definition notify :: "callback \<Rightarrow> real \<Rightarrow> exn option" where
  "notify progress_callback p =
     (case progress_callback of
        None \<Rightarrow> None
      | Some f \<Rightarrow> (case f p of Returns \<Rightarrow> None | Raises e \<Rightarrow> Some e))"

text \<open>
  The body of the \<open>try\<close> statement of \<open>search_mentions\<close>. It yields the value of its
  \<open>return\<close> or the exception raised in it, the list \<open>all_results\<close> as it stands at that
  moment, and the scraper.
\<close>

record attempt =
  completed :: "exn + post list"
  all_results :: "post list"
  scraper_after :: scraper

definition stopped :: "exn \<Rightarrow> post list \<Rightarrow> scraper \<Rightarrow> attempt" where
  "stopped e results s = \<lparr>completed = Inl e, all_results = results, scraper_after = s\<rparr>"

definition search_try ::
  "world \<Rightarrow> scraper \<Rightarrow> string \<Rightarrow> string \<Rightarrow> string \<Rightarrow> int \<Rightarrow> callback \<Rightarrow> attempt" where
  "search_try w s search_term time_filter sort_order limit progress_callback =
     (case notify progress_callback (1 / 10) of
        Some e \<Rightarrow> stopped e [] s
      | None \<Rightarrow>
          let json_results = search_via_json_api w search_term time_filter sort_order (limit div 2);
              results1 = json_results
          in (case notify progress_callback (4 / 10) of
                Some e \<Rightarrow> stopped e results1 s
              | None \<Rightarrow>
                  let (browser_results, s') =
                        search_via_browser w s search_term time_filter sort_order (limit div 2);
                      results2 = results1 @ browser_results
                  in (case notify progress_callback (7 / 10) of
                        Some e \<Rightarrow> stopped e results2 s'
                      | None \<Rightarrow>
                          let results3 =
                                (if int (length results2) < limit div 2
                                 then results2 @
                                      search_multiple_subreddits w search_term (limit div 4)
                                 else results2)
                          in (case notify progress_callback (9 / 10) of
                                Some e \<Rightarrow> stopped e results3 s'
                              | None \<Rightarrow>
                                  (case sort_newest_first (remove_duplicates results3) of
                                     Inl e \<Rightarrow> stopped e results3 s'
                                   | Inr unique_results \<Rightarrow>
                                       \<lparr>completed = Inr (slice_to unique_results limit),
                                        all_results = results3, scraper_after = s'\<rparr>)))))"

text \<open>What the caller of \<open>search_mentions\<close> gets, and the scraper the call leaves.\<close>

record outcome =
  returned :: "exn + post list"
  scraper_left :: scraper

text \<open>
  \<open>search_mentions\<close>: the clause \<open>except Exception\<close> returns \<open>all_results\<close> and lets
  an interrupt pass; the \<open>finally\<close> clause closes the browser, and an exception of
  \<open>close_browser\<close> replaces the value that was about to be returned or the exception
  that was on its way.
\<close>

definition search_mentions ::
  "world \<Rightarrow> scraper \<Rightarrow> string \<Rightarrow> string \<Rightarrow> string \<Rightarrow> int \<Rightarrow> callback \<Rightarrow> outcome" where
  "search_mentions w s search_term time_filter sort_order limit progress_callback =
     (let a = search_try w s search_term time_filter sort_order limit progress_callback;
          result = (case completed a of
                      Inr unique_results \<Rightarrow> Inr unique_results
                    | Inl e \<Rightarrow> if is_Exception e then Inr (all_results a) else Inl e)
      in case close_browser w (scraper_after a) of
           Inl e \<Rightarrow> \<lparr>returned = Inl e, scraper_left = scraper_after a\<rparr>
         | Inr s' \<Rightarrow> \<lparr>returned = result, scraper_left = s'\<rparr>)"

subsection \<open>Notions used in the statements\<close>

text \<open>The contribution of the third strategy, given the results of the first two.\<close>

definition fan_out :: "world \<Rightarrow> string \<Rightarrow> int \<Rightarrow> post list \<Rightarrow> post list" where
  "fan_out w search_term limit so_far =
     (if int (length so_far) < limit div 2
      then search_multiple_subreddits w search_term (limit div 4) else [])"

text \<open>The list \<open>all_results\<close> once the three strategies have run, in their order.\<close>

definition merged :: "world \<Rightarrow> scraper \<Rightarrow> string \<Rightarrow> string \<Rightarrow> string \<Rightarrow> int \<Rightarrow> post list" where
  "merged w s search_term time_filter sort_order limit =
     (let json_results = search_via_json_api w search_term time_filter sort_order (limit div 2);
          browser_results = fst (search_via_browser w s search_term time_filter sort_order (limit div 2))
      in json_results @ browser_results @ fan_out w search_term limit (json_results @ browser_results))"

text \<open>Whether a call raised.\<close>

definition raised :: "exn + 'a \<Rightarrow> bool" where
  "raised r = (case r of Inl e \<Rightarrow> True | Inr v \<Rightarrow> False)"

text \<open>The progress callback raises at none of the three checkpoints before the third
  strategy.\<close>

definition reaches_gate :: "callback \<Rightarrow> bool" where
  "reaches_gate cb =
     (notify cb (1 / 10) = None \<and> notify cb (4 / 10) = None \<and> notify cb (7 / 10) = None)"

text \<open>The progress callback raises at none of the four checkpoints.\<close>

definition returns_normally :: "callback \<Rightarrow> bool" where
  "returns_normally cb = (reaches_gate cb \<and> notify cb (9 / 10) = None)"

text \<open>
  The search reaches its normal return, the \<open>return\<close> of the \<open>try\<close> body: the callback
  raises nowhere and the sort of the unique posts does not raise.
\<close>

definition normal_return ::
  "world \<Rightarrow> scraper \<Rightarrow> string \<Rightarrow> string \<Rightarrow> string \<Rightarrow> int \<Rightarrow> callback \<Rightarrow> bool" where
  "normal_return w s search_term time_filter sort_order limit cb =
     (returns_normally cb \<and>
      \<not> raised (sort_newest_first
                  (remove_duplicates (merged w s search_term time_filter sort_order limit))))"

text \<open>An exception that \<open>except Exception\<close> catches, or none.\<close>

definition catchable :: "exn option \<Rightarrow> bool" where
  "catchable r = (case r of None \<Rightarrow> True | Some e \<Rightarrow> is_Exception e)"

text \<open>The progress callback raises no interrupt at any checkpoint.\<close>

definition no_interrupt :: "callback \<Rightarrow> bool" where
  "no_interrupt cb =
     (catchable (notify cb (1 / 10)) \<and> catchable (notify cb (4 / 10)) \<and>
      catchable (notify cb (7 / 10)) \<and> catchable (notify cb (9 / 10)))"



subsection \<open>Example searches\<close>

text \<open>A raw record with an id, a title and a creation time, and nothing else.\<close>

definition api_record :: "string \<Rightarrow> string \<Rightarrow> real \<Rightarrow> raw_post" where
  "api_record i ti created =
     empty_record\<lparr>raw_id := Some i, raw_title := Some ti, raw_created_utc := Some (Number created)\<rparr>"

text \<open>A raw record with an id and a title whose creation time is \<open>null\<close>.\<close>

definition undated_record :: "string \<Rightarrow> string \<Rightarrow> raw_post" where
  "undated_record i ti =
     empty_record\<lparr>raw_id := Some i, raw_title := Some ti, raw_created_utc := Some Null\<rparr>"

text \<open>A raw record with a title and no id.\<close>

definition idless_record :: "string \<Rightarrow> raw_post" where
  "idless_record ti = empty_record\<lparr>raw_title := Some ti\<rparr>"

text \<open>A complete post container of the rendered page.\<close>

definition container :: "string \<Rightarrow> string \<Rightarrow> int \<Rightarrow> int \<Rightarrow> post_element" where
  "container ti votes draw now =
     \<lparr> h3_text = Some ti, subreddit_name = Some ''r/news'', vote_count = Some votes,
       comment_count = Some ''128 Comments'',
       title_href = Some ''https://www.reddit.com/r/news/1'',
       rand_draw = draw, clock = now \<rparr>"

text \<open>
  A world in which the site-wide search lists three records, two of them with the same
  id, the page shows one complete container and one without its title link, and only the
  subreddit \<open>news\<close> answers, with an id already seen and a new one.
\<close>

definition world1 :: world where
  "world1 =
     \<lparr> http_get = (\<lambda>r. case r of
          SiteSearch q so t n \<Rightarrow>
            Listing [Child (api_record ''a'' ''first'' 5), Child (api_record ''b'' ''second'' 7),
                     Child (api_record ''a'' ''again'' 9)]
        | SubredditSearch sub q n \<Rightarrow>
            if sub = ''news''
            then Listing [Child (api_record ''b'' ''late'' 1), Child (api_record ''c'' ''third'' 7)]
            else HTTPError),
       chrome_starts = True,
       load_page = (\<lambda>q so t. Elements [container ''seen'' ''45'' 23 7,
                                         (container ''lost'' ''3'' 24 7)\<lparr>title_href := None\<rparr>]),
       quit_fails = False \<rparr>"

text \<open>A scraper as \<open>__init__\<close> leaves it.\<close>

definition fresh :: scraper where
  "fresh = \<lparr>driver = False\<rparr>"

text \<open>The post extracted from the complete container of \<open>world1\<close>.\<close>

definition seen_post :: post where
  "seen_post =
     \<lparr> post_id = ''browser_100023'', title = ''seen'', selftext = '''', author = ''N/A'',
       subreddit = ''news'', score = 45, upvote_ratio = 0, num_comments = 128,
       created_utc = Number 7,
       url = ''https://www.reddit.com/r/news/1'', permalink = ''https://www.reddit.com/r/news/1'',
       domain = ''reddit.com'', is_self = True \<rparr>"

text \<open>What the three strategies gather in \<open>world1\<close> for a limit of 10, and what the search
  returns.\<close>

definition merged1 :: "post list" where
  "merged1 =
     [extract_post_data (api_record ''a'' ''first'' 5),
      extract_post_data (api_record ''b'' ''second'' 7),
      extract_post_data (api_record ''a'' ''again'' 9),
      seen_post,
      extract_post_data (api_record ''b'' ''late'' 1),
      extract_post_data (api_record ''c'' ''third'' 7)]"

definition result1 :: "post list" where
  "result1 =
     [extract_post_data (api_record ''b'' ''second'' 7),
      seen_post,
      extract_post_data (api_record ''c'' ''third'' 7),
      extract_post_data (api_record ''a'' ''first'' 5)]"

text \<open>A callback that raises the given exception at one value only.\<close>

definition raising_at :: "real \<Rightarrow> exn \<Rightarrow> callback" where
  "raising_at p e = Some (\<lambda>x. if x = p then Raises e else Returns)"

text \<open>
  A world without browser in which the site-wide search finds nothing and every
  subreddit answers with one post of its own, as many as it is asked for.
\<close>

definition world2 :: world where
  "world2 =
     \<lparr> http_get = (\<lambda>r. case r of
          SiteSearch q so t n \<Rightarrow> Listing []
        | SubredditSearch sub q n \<Rightarrow> Listing [Child (api_record sub ''found'' 1)]),
       chrome_starts = False,
       load_page = (\<lambda>q so t. PageError),
       quit_fails = False \<rparr>"

definition result2 :: "post list" where
  "result2 = map (\<lambda>sub. extract_post_data (api_record sub ''found'' 1)) target_subreddits"

text \<open>\<open>world1\<close> without a browser engine, and what a search with limit 10 returns there.\<close>

definition world3 :: world where
  "world3 = world1\<lparr>chrome_starts := False\<rparr>"

definition result3 :: "post list" where
  "result3 =
     [extract_post_data (api_record ''b'' ''second'' 7),
      extract_post_data (api_record ''c'' ''third'' 7),
      extract_post_data (api_record ''a'' ''first'' 5)]"


text \<open>\<open>world1\<close> with the site-wide search unreachable.\<close>

definition world5 :: world where
  "world5 =
     world1\<lparr>http_get := (\<lambda>r. case r of
        SiteSearch q so t n \<Rightarrow> ConnectionError
      | SubredditSearch sub q n \<Rightarrow> http_get world1 r)\<rparr>"


text \<open>
  A world without browser and without answering subreddits, in which the site-wide
  search lists an id twice and one record whose creation time is \<open>null\<close>; and what
  the strategies gather there.
\<close>

definition world6 :: world where
  "world6 =
     \<lparr> http_get = (\<lambda>r. case r of
          SiteSearch q so t n \<Rightarrow>
            Listing [Child (api_record ''a'' ''first'' 5), Child (undated_record ''b'' ''undated''),
                     Child (api_record ''a'' ''again'' 9)]
        | SubredditSearch sub q n \<Rightarrow> HTTPError),
       chrome_starts = False,
       load_page = (\<lambda>q so t. PageError),
       quit_fails = False \<rparr>"

definition merged6 :: "post list" where
  "merged6 =
     [extract_post_data (api_record ''a'' ''first'' 5),
      extract_post_data (undated_record ''b'' ''undated''),
      extract_post_data (api_record ''a'' ''again'' 9)]"


section \<open>Properties\<close>

subsection \<open>Removing duplicates and slicing\<close>

lemma dedup_loop_acc: "dedup_loop seen u rs = u @ dedup_loop seen [] rs"
proof (induction rs arbitrary: seen u)
  case Nil
  show ?case by simp
next
  case (Cons r rs)
  show ?case
    using Cons.IH [of "insert (post_id r) seen" "u @ [r]"] Cons.IH [of "insert (post_id r) seen" "[r]"]
      Cons.IH [of seen u]
    by simp
qed

lemma dedup_loop_Cons:
  "dedup_loop seen [] (r # rs) =
     (if post_id r \<notin> seen then r # dedup_loop (insert (post_id r) seen) [] rs
      else dedup_loop seen [] rs)"
  using dedup_loop_acc [of "insert (post_id r) seen" "[r]" rs] by simp

lemma dedup_loop_filter:
  "filter (\<lambda>p. post_id p = i) (dedup_loop seen [] rs) =
     (if i \<in> seen then [] else take 1 (filter (\<lambda>p. post_id p = i) rs))"
proof (induction rs arbitrary: seen)
  case Nil
  show ?case by simp
next
  case (Cons r rs)
  show ?case by (simp add: dedup_loop_Cons Cons.IH del: dedup_loop.simps)
qed

lemma dedup_loop_set:
  "set (dedup_loop seen [] rs) \<subseteq> {p \<in> set rs. post_id p \<notin> seen}"
proof (induction rs arbitrary: seen)
  case Nil
  show ?case by simp
next
  case (Cons r rs)
  show ?case using Cons.IH [of seen] Cons.IH [of "insert (post_id r) seen"]
    by (auto simp: dedup_loop_Cons simp del: dedup_loop.simps)
qed

lemma dedup_loop_distinct: "distinct (map post_id (dedup_loop seen [] rs))"
proof (induction rs arbitrary: seen)
  case Nil
  show ?case by simp
next
  case (Cons r rs)
  show ?case using Cons.IH dedup_loop_set [of "insert (post_id r) seen" rs]
    by (auto simp: dedup_loop_Cons simp del: dedup_loop.simps)
qed

lemma dedup_loop_first:
  "p \<in> set (dedup_loop seen [] rs) \<Longrightarrow> find (\<lambda>r. post_id r = post_id p) rs = Some p"
proof (induction rs arbitrary: seen)
  case Nil
  then show ?case by simp
next
  case (Cons r rs)
  show ?case
  proof (cases "post_id r \<in> seen")
    case True
    with Cons.prems have m: "p \<in> set (dedup_loop seen [] rs)" by (simp add: dedup_loop_Cons del: dedup_loop.simps)
    with dedup_loop_set [of seen rs] have "post_id p \<notin> seen" by auto
    with True have "post_id r \<noteq> post_id p" by auto
    with Cons.IH [OF m] show ?thesis by simp
  next
    case False
    with Cons.prems have "p = r \<or> p \<in> set (dedup_loop (insert (post_id r) seen) [] rs)"
      by (simp add: dedup_loop_Cons del: dedup_loop.simps)
    then show ?thesis
    proof
      assume "p = r"
      then show ?thesis by simp
    next
      assume m: "p \<in> set (dedup_loop (insert (post_id r) seen) [] rs)"
      with dedup_loop_set [of "insert (post_id r) seen" rs] have "post_id r \<noteq> post_id p" by auto
      with Cons.IH [OF m] show ?thesis by simp
    qed
  qed
qed

lemma remove_duplicates_distinct: "distinct (map post_id (remove_duplicates rs))"
  by (simp add: remove_duplicates_def dedup_loop_distinct)

lemma remove_duplicates_first:
  "p \<in> set (remove_duplicates rs) \<Longrightarrow> find (\<lambda>r. post_id r = post_id p) rs = Some p"
  by (simp add: remove_duplicates_def dedup_loop_first)

lemma slice_to_take: "\<exists>n. slice_to xs k = take n xs"
  by (auto simp: slice_to_def)

lemma set_slice_to: "set (slice_to xs k) \<subseteq> set xs"
  using slice_to_take [of xs k] by (auto dest: in_set_takeD)

lemma slice_to_distinct: "distinct (map f xs) \<Longrightarrow> distinct (map f (slice_to xs k))"
proof -
  assume d: "distinct (map f xs)"
  obtain n where n: "slice_to xs k = take n xs" using slice_to_take by blast
  have "map f (take n xs) = take n (map f xs)" by (simp add: take_map)
  with d n show ?thesis by simp
qed



subsection \<open>Sorting\<close>

lemma sort_newest_first_Inr:
  assumes "sort_newest_first xs = Inr S"
  shows "S = sort_key (\<lambda>x. - number_of (created_utc x)) xs"
    and "length xs < 2 \<or> (\<forall>x\<in>set xs. created_utc x \<noteq> Null)"
  using assms by (auto simp: sort_newest_first_def list_ex_iff split: if_splits)

lemma sort_newest_first_set: "sort_newest_first xs = Inr S \<Longrightarrow> set S = set xs"
  by (drule sort_newest_first_Inr(1)) simp

lemma sort_newest_first_distinct:
  "sort_newest_first xs = Inr S \<Longrightarrow> distinct (map post_id S) = distinct (map post_id xs)"
  by (drule sort_newest_first_Inr(1)) (simp add: distinct_map)



subsection \<open>The body of the try statement\<close>

lemma search_try_normal:
  assumes "normal_return w s q t so limit cb"
  shows "\<exists>S. sort_newest_first (remove_duplicates (merged w s q t so limit)) = Inr S \<and>
             completed (search_try w s q t so limit cb) = Inr (slice_to S limit)"
proof -
  from assms obtain S
    where S: "sort_newest_first (remove_duplicates (merged w s q t so limit)) = Inr S"
    by (cases "sort_newest_first (remove_duplicates (merged w s q t so limit))")
       (auto simp: normal_return_def raised_def)
  from assms have cb: "notify cb (1 / 10) = None" "notify cb (4 / 10) = None"
    "notify cb (7 / 10) = None" "notify cb (9 / 10) = None"
    by (simp_all add: normal_return_def returns_normally_def reaches_gate_def)
  have "completed (search_try w s q t so limit cb) = Inr (slice_to S limit)"
    using S cb
    by (auto simp: search_try_def merged_def fan_out_def Let_def split: prod.splits if_splits)
  with S show ?thesis by blast
qed

lemma search_mentions_normal:
  assumes "normal_return w s q t so limit cb"
    and "returned (search_mentions w s q t so limit cb) = Inr ps"
  shows "\<exists>S. sort_newest_first (remove_duplicates (merged w s q t so limit)) = Inr S \<and>
             ps = slice_to S limit"
proof -
  from search_try_normal [OF assms(1)] obtain S
    where S: "sort_newest_first (remove_duplicates (merged w s q t so limit)) = Inr S"
      and c: "completed (search_try w s q t so limit cb) = Inr (slice_to S limit)"
    by blast
  from assms(2) c have "ps = slice_to S limit"
    by (simp add: search_mentions_def Let_def split: sum.splits)
  with S show ?thesis by blast
qed

lemma normal_return_iff:
  "normal_return w s q t so limit cb = (\<not> raised (completed (search_try w s q t so limit cb)))"
  by (auto simp: normal_return_def returns_normally_def reaches_gate_def raised_def search_try_def
      stopped_def merged_def fan_out_def Let_def split: prod.splits sum.splits option.splits)

lemma search_try_driver:
  "driver (scraper_after (search_try w s q t so limit cb)) =
     (driver s \<or> (chrome_starts w \<and> notify cb (1 / 10) = None \<and> notify cb (4 / 10) = None))"
  by (auto simp: search_try_def stopped_def search_via_browser_def init_browser_def Let_def
      split: prod.splits sum.splits page.splits if_splits option.splits)

lemma search_try_catchable:
  assumes "no_interrupt cb" and "completed (search_try w s q t so limit cb) = Inl e"
  shows "is_Exception e"
  using assms
  by (auto simp: search_try_def stopped_def no_interrupt_def catchable_def sort_newest_first_def
      is_Exception_def Let_def split: prod.splits sum.splits option.splits if_splits)

lemma search_mentions_raised:
  assumes "no_interrupt cb"
  shows "raised (returned (search_mentions w s q t so limit cb)) =
           (quit_fails w \<and>
            (driver s \<or> (chrome_starts w \<and> notify cb (1 / 10) = None \<and> notify cb (4 / 10) = None)))"
proof -
  have "\<not> raised (case completed (search_try w s q t so limit cb) of
                     Inr unique_results \<Rightarrow> Inr unique_results
                   | Inl e \<Rightarrow> if is_Exception e
                              then Inr (all_results (search_try w s q t so limit cb)) else Inl e)"
    using search_try_catchable [OF assms, of w s q t so limit]
    by (auto simp: raised_def split: sum.splits)
  then show ?thesis
    using search_try_driver [of w s q t so limit cb]
    by (auto simp: search_mentions_def close_browser_def raised_def Let_def split: sum.splits)
qed

subsection \<open>The example searches, evaluated\<close>

lemma world1_normal_return: "normal_return world1 fresh ''tesla'' ''week'' ''new'' 10 None"
  by code_simp

lemma world1_merged: "merged world1 fresh ''tesla'' ''week'' ''new'' 10 = merged1"
  by code_simp

lemma world1_result:
  "returned (search_mentions world1 fresh ''tesla'' ''week'' ''new'' 10 None) = Inr result1"
  by code_simp


lemma world6_result:
  "returned (search_mentions world6 fresh ''tesla'' ''week'' ''new'' 10 None) = Inr merged6"
  by code_simp

subsection \<open>Deduplication\<close>

text \<open>
  In \<open>world6\<close>, without any callback, the unique posts cannot be sorted, because one
  creation time is \<open>null\<close>; the \<open>except\<close> clause returns the merged list, in which the
  id \<open>a\<close> comes twice.
\<close>

theorem search_mentions_returns_duplicates:
  "returned (search_mentions world6 fresh ''tesla'' ''week'' ''new'' 10 None) = Inr merged6 \<and>
   \<not> distinct (map post_id merged6)"
proof -
  have "\<not> distinct (map post_id merged6)"
    by code_simp
  with world6_result show ?thesis by blast
qed

text \<open>
  Claim C1, amended. Whatever records the three strategies produce, a search that reaches
  its normal return gives a list with at most one post per id, and each post in it is the
  first post with its id in the merged list of the strategies, taken in the order JSON
  API, browser, subreddit fan-out.
\<close>

theorem search_mentions_first_per_id:
  assumes "normal_return w s q t so limit cb"
    and "returned (search_mentions w s q t so limit cb) = Inr ps"
  shows "distinct (map post_id ps) \<and>
         (\<forall>p\<in>set ps. find (\<lambda>r. post_id r = post_id p) (merged w s q t so limit) = Some p)"
proof -
  let ?U = "remove_duplicates (merged w s q t so limit)"
  from search_mentions_normal [OF assms] obtain S
    where S: "sort_newest_first ?U = Inr S" and ps: "ps = slice_to S limit"
    by blast
  have "distinct (map post_id S)"
    by (simp add: sort_newest_first_distinct [OF S] remove_duplicates_distinct)
  then have d: "distinct (map post_id ps)"
    unfolding ps by (rule slice_to_distinct)
  have "set ps \<subseteq> set ?U"
    unfolding ps using set_slice_to [of S limit]
    by (simp add: sort_newest_first_set [OF S])
  then have "\<forall>p\<in>set ps. find (\<lambda>r. post_id r = post_id p) (merged w s q t so limit) = Some p"
    using remove_duplicates_first by blast
  with d show ?thesis by simp
qed

text \<open>In \<open>world1\<close> the ids \<open>a\<close> and \<open>b\<close> come twice; the posts kept are the first ones.\<close>

theorem search_mentions_first_per_id_witness:
  "normal_return world1 fresh ''tesla'' ''week'' ''new'' 10 None \<and>
   returned (search_mentions world1 fresh ''tesla'' ''week'' ''new'' 10 None) = Inr result1 \<and>
   distinct (map post_id result1) \<and>
   list_all (\<lambda>p. find (\<lambda>r. post_id r = post_id p) merged1 = Some p) result1"
  using search_mentions_first_per_id [OF world1_normal_return world1_result]
    world1_normal_return world1_result
  by (simp add: world1_merged list_all_iff)

subsection \<open>Ordering\<close>




subsection \<open>Truncation\<close>

text \<open>
  A run of \<open>world2\<close> with limit 4: every request is answered with no more posts than it
  asks for, the fan-out gathers ten posts, and the progress callback raises at its last
  checkpoint. The \<open>except\<close> clause returns the ten posts.
\<close>

theorem search_mentions_exceeds_limit:
  "returned (search_mentions world2 fresh ''tesla'' ''week'' ''relevance'' 4
      (raising_at (9 / 10) CallbackError))
     = Inr result2 \<and>
   \<not> int (length result2) \<le> 4"
proof -
  have "returned (search_mentions world2 fresh ''tesla'' ''week'' ''relevance'' 4
          (raising_at (9 / 10) CallbackError)) = Inr result2"
    by code_simp
  moreover have "\<not> int (length result2) \<le> 4"
    by (simp add: result2_def target_subreddits_def)
  ultimately show ?thesis by blast
qed

text \<open>
  Claim C3, amended. For a limit that is not negative, a search that runs to its normal
  return gives a list no longer than the limit, however many unique posts were found.
\<close>

theorem search_mentions_within_limit:
  assumes "normal_return w s q t so limit cb"
    and "0 \<le> limit"
    and "returned (search_mentions w s q t so limit cb) = Inr ps"
  shows "int (length ps) \<le> limit"
proof -
  from search_mentions_normal [OF assms(1,3)] obtain S where "ps = slice_to S limit"
    by blast
  with assms(2) show ?thesis by (simp add: slice_to_def)
qed

text \<open>In \<open>world1\<close> with limit 2 three unique posts are found and two are returned.\<close>

theorem search_mentions_within_limit_witness:
  "normal_return world1 fresh ''tesla'' ''week'' ''new'' 2 None \<and> (0 :: int) \<le> 2 \<and>
   length (remove_duplicates (merged world1 fresh ''tesla'' ''week'' ''new'' 2)) = 3 \<and>
   returned (search_mentions world1 fresh ''tesla'' ''week'' ''new'' 2 None) = Inr (take 2 result1) \<and>
   int (length (take 2 result1)) \<le> 2"
proof -
  have n: "normal_return world1 fresh ''tesla'' ''week'' ''new'' 2 None"
    by code_simp
  have r: "returned (search_mentions world1 fresh ''tesla'' ''week'' ''new'' 2 None)
             = Inr (take 2 result1)"
    by code_simp
  have u: "length (remove_duplicates (merged world1 fresh ''tesla'' ''week'' ''new'' 2)) = 3"
    by code_simp
  have l: "(0 :: int) \<le> 2" by simp
  from search_mentions_within_limit [OF n l r] n r u
  show ?thesis by simp
qed

text \<open>With a negative limit the slice drops posts from the end; any list is longer than
  such a limit.\<close>

lemma negative_limit:
  "returned (search_mentions world1 fresh ''tesla'' ''week'' ''new'' (- 1) None)
     = Inr (take 2 result1)"
  by code_simp

subsection \<open>Which failures the search absorbs\<close>

text \<open>
  In \<open>world3\<close> the browser engine is unavailable: \<open>init_browser\<close> raises, and the search
  returns the posts of the two JSON strategies.
\<close>

theorem search_mentions_without_browser:
  "raised (init_browser world3 fresh) \<and>
   returned (search_mentions world3 fresh ''tesla'' ''week'' ''new'' 10 None) = Inr result3"
proof -
  have "raised (init_browser world3 fresh)"
    by code_simp
  moreover
  have "returned (search_mentions world3 fresh ''tesla'' ''week'' ''new'' 10 None) = Inr result3"
    by code_simp
  ultimately show ?thesis by blast
qed

text \<open>
  Claim C4, amended. \<open>search_mentions\<close> does not raise when the browser session cannot be
  acquired: the browser strategy catches that failure, and a list is returned. Whatever
  fails in a strategy or in the aggregator (a request, the parsing, the page, the
  extraction of a post, the sort, an error of the progress callback), a list is returned
  in every run in which the callback raises no interrupt and the browser session is
  closed without error.
\<close>

theorem search_mentions_absorbs_failures:
  assumes "no_interrupt cb"
  shows "(raised (init_browser w s) \<longrightarrow>
            \<not> raised (returned (search_mentions w s q t so limit cb))) \<and>
         (\<not> quit_fails w \<longrightarrow>
            \<not> raised (returned (search_mentions w s q t so limit cb)))"
proof -
  note iff = search_mentions_raised [OF assms, of w s q t so limit]
  have "\<not> raised (returned (search_mentions w s q t so limit cb))"
    if "raised (init_browser w s)"
  proof -
    from that have "\<not> driver s \<and> \<not> chrome_starts w"
      by (auto simp: init_browser_def raised_def split: if_splits)
    with iff show ?thesis by simp
  qed
  with iff show ?thesis by blast
qed

text \<open>In \<open>world3\<close> the browser cannot start; in \<open>world5\<close> the site-wide search is
  unreachable, nine subreddits answer with an error status, and the callback raises an
  error after the first strategy. Neither search raises.\<close>

theorem search_mentions_absorbs_failures_witness:
  "no_interrupt None \<and> raised (init_browser world3 fresh) \<and>
   \<not> raised (returned (search_mentions world3 fresh ''tesla'' ''week'' ''new'' 10 None)) \<and>
   no_interrupt (raising_at (4 / 10) CallbackError) \<and> \<not> quit_fails world5 \<and>
   \<not> raised (returned (search_mentions world5 fresh ''tesla'' ''week'' ''new'' 10
                 (raising_at (4 / 10) CallbackError)))"
proof -
  have n: "no_interrupt None" "no_interrupt (raising_at (4 / 10) CallbackError)"
    by code_simp+
  have i: "raised (init_browser world3 fresh)"
    by code_simp
  have q: "\<not> quit_fails world5"
    by (simp add: world5_def world1_def)
  from search_mentions_absorbs_failures [OF n(1), of world3 fresh "''tesla''" "''week''" "''new''" 10] i
  have a: "\<not> raised (returned (search_mentions world3 fresh ''tesla'' ''week'' ''new'' 10 None))"
    by blast
  from search_mentions_absorbs_failures [OF n(2), of world5 fresh "''tesla''" "''week''" "''new''" 10] q
  have b: "\<not> raised (returned (search_mentions world5 fresh ''tesla'' ''week'' ''new'' 10
                 (raising_at (4 / 10) CallbackError)))"
    by blast
  from n i a q b show ?thesis by blast
qed

subsection \<open>The normalizer on a record without fields\<close>

text \<open>The permalink of the post made from the empty record is not empty.\<close>

theorem empty_record_permalink:
  "permalink (extract_post_data empty_record) \<noteq> ''''"
  by (simp add: extract_post_data_def empty_record_def dict_get_def)

text \<open>
  Claim C5, amended. A raw record without any field is normalized to a post with score 0,
  no comments, upvote ratio 0, \<open>is_self\<close> false, creation time 0 and the author
  \<open>[deleted]\<close>; its permalink is the site's base address, and its title, text,
  subreddit, url and domain are empty.
\<close>

theorem extract_post_data_defaults:
  "extract_post_data empty_record =
     \<lparr> post_id = '''', title = '''', selftext = '''', author = ''[deleted]'', subreddit = '''',
       score = 0, upvote_ratio = 0, num_comments = 0, created_utc = Number 0, url = '''',
       permalink = ''https://www.reddit.com'', domain = '''', is_self = False \<rparr>"
  by (simp add: extract_post_data_def empty_record_def dict_get_def)

subsection \<open>A failing JSON API\<close>

lemma collect_keeps_earlier_posts:
  "collect (map Child rs @ BadChild # cs) = map extract_post_data rs"
  by (induction rs) auto




subsection \<open>An exception inside the aggregator\<close>




subsection \<open>The gate of the fan-out\<close>




subsection \<open>Records without id\<close>

lemma take_1_filter:
  "take 1 (filter P xs) = (case find P xs of None \<Rightarrow> [] | Some x \<Rightarrow> [x])"
  by (induction xs) auto

text \<open>
  Claim C10. A raw record without an id is normalized to a post whose id is the empty
  text; of all the posts with the empty id that a search gathers, deduplication keeps
  the first one only, whatever their other fields.
\<close>

theorem records_without_id_collapse:
  assumes "raw_id r = None"
    and "extract_post_data r \<in> set results"
  shows "post_id (extract_post_data r) = '''' \<and>
         (\<exists>first. find (\<lambda>p. post_id p = '''') results = Some first \<and>
                  filter (\<lambda>p. post_id p = '''') (remove_duplicates results) = [first])"
proof -
  have i: "post_id (extract_post_data r) = ''''"
    using assms(1) by (simp add: extract_post_data_def dict_get_def)
  with assms(2) have "find (\<lambda>p. post_id p = '''') results \<noteq> None"
    by (auto simp: find_None_iff)
  then obtain first where f: "find (\<lambda>p. post_id p = '''') results = Some first"
    by auto
  have "filter (\<lambda>p. post_id p = '''') (remove_duplicates results) =
          take 1 (filter (\<lambda>p. post_id p = '''') results)"
    by (simp add: remove_duplicates_def dedup_loop_filter)
  with f take_1_filter [of "\<lambda>p. post_id p = ''''" results]
  have "filter (\<lambda>p. post_id p = '''') (remove_duplicates results) = [first]"
    by simp
  with i f show ?thesis by simp
qed

text \<open>Two records without id and with different titles: the second post is dropped.\<close>

theorem records_without_id_collapse_witness:
  "raw_id (idless_record ''two'') = None \<and>
   extract_post_data (idless_record ''one'') \<noteq> extract_post_data (idless_record ''two'') \<and>
   post_id (extract_post_data (idless_record ''two'')) = '''' \<and>
   remove_duplicates
     [extract_post_data (idless_record ''one''), extract_post_data (api_record ''a'' ''first'' 5),
      extract_post_data (idless_record ''two'')] =
     [extract_post_data (idless_record ''one''), extract_post_data (api_record ''a'' ''first'' 5)]"
proof -
  let ?results = "[extract_post_data (idless_record ''one''),
                   extract_post_data (api_record ''a'' ''first'' 5),
                   extract_post_data (idless_record ''two'')]"
  have n: "raw_id (idless_record ''two'') = None"
    by (simp add: idless_record_def empty_record_def)
  have m: "extract_post_data (idless_record ''two'') \<in> set ?results"
    by simp
  have d: "extract_post_data (idless_record ''one'') \<noteq> extract_post_data (idless_record ''two'')"
    by (simp add: extract_post_data_def idless_record_def empty_record_def dict_get_def)
  have e: "remove_duplicates ?results =
             [extract_post_data (idless_record ''one''), extract_post_data (api_record ''a'' ''first'' 5)]"
    by code_simp
  from records_without_id_collapse [OF n m] n d e show ?thesis by simp
qed

subsection \<open>Parsing a score\<close>

lemma parse_score_examples:
  "parse_score ''1.2k'' = 1200" "parse_score ''45'' = 45" "parse_score ''abc'' = 0"
  "parse_score ''1,234'' = 1234" "parse_score ''k'' = 0"
  by code_simp+

text \<open>
  Claim C8 (a text with the suffix \<open>k\<close> is parsed as its numeric prefix times 1000).
  The code multiplies in binary floating point and truncates the product: the float
  nearest to 32.3, times 1000, lies just below 32300, so the score of the text
  \<open>32.3k\<close> is 32299 and not 32300.
\<close>

theorem parse_score_truncates:
  "parse_score ''32.3k'' = 32299"
  by code_simp

end
